theory Spec2Isabelle
  imports Main "HOL-Library.Word"
begin

section \<open>Go values shared by both source units\<close>

text \<open>
  \<^verbatim>\<open>common.Hash\<close> is a 32-byte array, \<^verbatim>\<open>common.Address\<close> a 20-byte array; the zero
  value \<^verbatim>\<open>common.Hash{}\<close> is the word 0. A \<^verbatim>\<open>*big.Int\<close> is an unbounded integer
  behind a pointer: \<open>int option\<close> where the source leaves the pointer nil or tests it
  for nil, \<open>int\<close> where the source always sets it.
\<close>

type_synonym Hash = "256 word"
type_synonym Address = "160 word"
type_synonym uint64 = "64 word"
type_synonym bytes = "8 word list"

text \<open>
  A Go function either returns its results (an \<^verbatim>\<open>error\<close> result is a value among them,
  \<open>None\<close> for nil) or panics: a nil pointer dereference, an index out of range, a
  division by zero.
\<close>

datatype 'a outcome = Returns 'a | Panics

text \<open>
  \<^verbatim>\<open>(*big.Int).Uint64\<close>: the low 64 bits of the magnitude. Subtraction and addition
  on the result wrap around, as Go's \<^verbatim>\<open>uint64\<close> does.
\<close>

definition Uint64 :: "int \<Rightarrow> uint64" where
  "Uint64 x = word_of_int \<bar>x\<bar>"

section \<open>Snail and fast chain blocks\<close>

text \<open>
  The package \<^verbatim>\<open>types\<close> is outside the sources at hand. The records keep the header
  fields the two units read or write. A fruit is itself a snail block.
\<close>

record Header =
  ParentHash :: Hash
  Root :: Hash
  Number :: int
  Time :: "int option"
  Extra :: bytes
  GasLimit :: uint64
  GasUsed :: uint64

record SnailHeader =
  ParentHash :: Hash
  Coinbase :: Address
  FruitsHash :: Hash
  SignHash :: Hash
  FastHash :: Hash
  FastNumber :: "int option"
  Difficulty :: "int option"
  FruitDifficulty :: "int option"
  MixDigest :: Hash
  Number :: int
  Time :: "int option"
  Extra :: bytes
  Nonce :: uint64

type_synonym PbftSign = bytes

datatype SnailBlock =
  SnailBlock (header: SnailHeader) (Fruits: "SnailBlock list") (Signs: "PbftSign list")

definition NumberU64 :: "SnailBlock \<Rightarrow> uint64" where
  "NumberU64 b = Uint64 (SnailHeader.Number (header b))"

section \<open>The snail block validator\<close>

text \<open>
  The errors \<^verbatim>\<open>ValidateBody\<close> and \<^verbatim>\<open>ValidateFruit\<close> return: the package's own, those
  of \<^verbatim>\<open>consensus\<close> and \<^verbatim>\<open>core\<close>, the formatted fruits-hash mismatch (have, want), and
  whatever else the consensus engine reports.
\<close>

datatype verror =
    ErrKnownBlock
  | ErrUnknownAncestor
  | ErrPrunedAncestor
  | ErrFutureBlock
  | ErrInvalidSignHash
  | ErrInvalidFast
  | ErrNoFruits
  | ErrInvalidFruits
  | ErrGapFruits
  | ErrFruitTime
  | ErrBlockTime
  | FruitsHashMismatch Hash Hash
  | EngineError string

text \<open>
  \<^verbatim>\<open>BlockValidator\<close> holds the chain configuration, the snail chain, the consensus
  engine and the fast chain. None of them is in the sources: each capability the
  validator calls is a field here. The engine may return any error value.
\<close>

record BlockValidator =
  MaximumFruits :: int
  MinimumFruits :: int
  MinTimeGap :: int
  IsCanonicalBlock :: "Hash \<Rightarrow> uint64 \<Rightarrow> bool"
  HasBlock :: "Hash \<Rightarrow> uint64 \<Rightarrow> bool"
  GetBlock :: "Hash \<Rightarrow> uint64 \<Rightarrow> SnailBlock option"
  GetHeader :: "Hash \<Rightarrow> uint64 \<Rightarrow> Header option"
  CurrentHeaderNumber :: int
  VerifyFreshness :: "SnailHeader \<Rightarrow> SnailHeader option \<Rightarrow> bool \<Rightarrow> verror option"
  VerifySnailHeader :: "SnailHeader \<Rightarrow> verror option"
  VerifySigns :: "int \<Rightarrow> Hash \<Rightarrow> PbftSign list \<Rightarrow> verror option"
  CalcSignHash :: "PbftSign list \<Rightarrow> Hash"
  DeriveSha :: "SnailBlock list \<Rightarrow> Hash"
  BlockHash :: "SnailBlock \<Rightarrow> Hash"

text \<open>
  \<^verbatim>\<open>ValidateFruit\<close>. Reading the anchored number of a fruit whose \<^verbatim>\<open>FastNumber\<close>
  pointer is nil panics.
\<close>

definition ValidateFruit ::
  "BlockValidator \<Rightarrow> SnailBlock \<Rightarrow> SnailBlock option \<Rightarrow> bool \<Rightarrow> verror option outcome" where
  "ValidateFruit v fruit block canonical =
    (case FastNumber (header fruit) of
      None \<Rightarrow> Panics
    | Some fastNumber \<Rightarrow>
        if fastNumber > CurrentHeaderNumber v then Returns (Some ErrFutureBlock)
        else
          (case GetHeader v (FastHash (header fruit)) (Uint64 fastNumber) of
            None \<Rightarrow> Returns (Some ErrInvalidFast)
          | Some fb \<Rightarrow>
              if SnailHeader.Time (header fruit) = None \<or> Header.Time fb = None
                 \<or> the (SnailHeader.Time (header fruit)) < the (Header.Time fb)
              then Returns (Some ErrFruitTime)
              else if SignHash (header fruit) \<noteq> CalcSignHash v (Signs fruit)
              then Returns (Some ErrInvalidSignHash)
              else
                (case VerifyFreshness v (header fruit) (map_option header block) canonical of
                  Some err \<Rightarrow> Returns (Some err)
                | None \<Rightarrow>
                    (case VerifySnailHeader v (header fruit) of
                      Some err \<Rightarrow> Returns (Some err)
                    | None \<Rightarrow>
                        (case VerifySigns v fastNumber (FastHash (header fruit)) (Signs fruit) of
                          Some err \<Rightarrow> Returns (Some err)
                        | None \<Rightarrow> Returns None)))))"

text \<open>
  The loop of \<^verbatim>\<open>ValidateBody\<close> over the candidate's fruits: the running \<^verbatim>\<open>temp\<close>, the
  \<^verbatim>\<open>uint64\<close> difference test, then \<^verbatim>\<open>ValidateFruit\<close> on the same fruit, before the
  next fruit is looked at.
\<close>

fun validateFruits ::
  "BlockValidator \<Rightarrow> SnailBlock \<Rightarrow> uint64 \<Rightarrow> SnailBlock list \<Rightarrow> verror option outcome" where
  "validateFruits v block temp [] = Returns None"
| "validateFruits v block temp (fruit # rest) =
    (case FastNumber (header fruit) of
      None \<Rightarrow> Panics
    | Some n \<Rightarrow>
        if Uint64 n - temp \<noteq> 1 then Returns (Some ErrInvalidFruits)
        else
          (case ValidateFruit v fruit (Some block) False of
            Panics \<Rightarrow> Panics
          | Returns (Some err) \<Rightarrow> Returns (Some err)
          | Returns None \<Rightarrow> validateFruits v block (Uint64 n) rest))"

text \<open>
  The start value of \<^verbatim>\<open>temp\<close>: zero, or the anchored number of the parent's last
  fruit when the parent's number is positive. Indexing an empty fruit list panics.
\<close>

definition parentTemp :: "SnailBlock \<Rightarrow> uint64 outcome" where
  "parentTemp preBlock =
    (if SnailHeader.Number (header preBlock) > 0 then
       (case Fruits preBlock of
         [] \<Rightarrow> Panics
       | localFruits \<Rightarrow>
           (case FastNumber (header (last localFruits)) of
             None \<Rightarrow> Panics
           | Some n \<Rightarrow> Returns (Uint64 n)))
     else Returns 0)"

text \<open>
  \<^verbatim>\<open>ValidateBody\<close>, in the order of the source text, cut into its consecutive parts
  so that each part can be named: lines 141 to 163 (the loop over the fruits, then the
  fruits hash), lines 136 to 140 (the time gap), lines 126 to 135 (the anchored fast
  headers and the block time), lines 116 to 125 (the parent block and \<^verbatim>\<open>temp\<close>), and
  lines 93 to 114 (known block, ancestor, fruit count). The fruit list is not empty
  once the count test has passed, so \<open>hd\<close> and \<open>last\<close> read existing elements.
  \<^verbatim>\<open>new(big.Int).Sub\<close> on a nil time panics.
\<close>

definition ValidateBody_fruits ::
  "BlockValidator \<Rightarrow> SnailBlock \<Rightarrow> uint64 \<Rightarrow> verror option outcome" where
  "ValidateBody_fruits v block temp =
    (case validateFruits v block temp (Fruits block) of
      Panics \<Rightarrow> Panics
    | Returns (Some err) \<Rightarrow> Returns (Some err)
    | Returns None \<Rightarrow>
        let hash = DeriveSha v (Fruits block) in
        if hash \<noteq> FruitsHash (header block)
        then Returns (Some (FruitsHashMismatch hash (FruitsHash (header block))))
        else Returns None)"

definition ValidateBody_gap ::
  "BlockValidator \<Rightarrow> SnailBlock \<Rightarrow> uint64 \<Rightarrow> Header \<Rightarrow> Header \<Rightarrow> verror option outcome" where
  "ValidateBody_gap v block temp minfb maxfb =
    (case (Header.Time maxfb, Header.Time minfb) of
      (Some maxt, Some mint) \<Rightarrow>
        let gap = maxt - mint in
        if gap < MinTimeGap v then Returns (Some ErrGapFruits)
        else ValidateBody_fruits v block temp
    | _ \<Rightarrow> Panics)"

definition ValidateBody_anchors ::
  "BlockValidator \<Rightarrow> SnailBlock \<Rightarrow> uint64 \<Rightarrow> verror option outcome" where
  "ValidateBody_anchors v block temp =
    (let fruits = Fruits block in
     case (FastNumber (header (last fruits)), FastNumber (header (hd fruits))) of
       (Some maxn, Some minn) \<Rightarrow>
         let maxfb = GetHeader v (FastHash (header (last fruits))) (Uint64 maxn);
             minfb = GetHeader v (FastHash (header (hd fruits))) (Uint64 minn)
         in
         (case (minfb, maxfb) of
           (Some minfb, Some maxfb) \<Rightarrow>
             if SnailHeader.Time (header (last fruits)) = None
                \<or> SnailHeader.Time (header block) = None
                \<or> the (SnailHeader.Time (header block))
                    < the (SnailHeader.Time (header (last fruits)))
             then Returns (Some ErrBlockTime)
             else ValidateBody_gap v block temp minfb maxfb
         | _ \<Rightarrow> Returns (Some ErrFutureBlock))
     | _ \<Rightarrow> Panics)"

definition ValidateBody_parent :: "BlockValidator \<Rightarrow> SnailBlock \<Rightarrow> verror option outcome" where
  "ValidateBody_parent v block =
    (case GetBlock v (SnailHeader.ParentHash (header block)) (NumberU64 block - 1) of
      None \<Rightarrow> Returns (Some ErrUnknownAncestor)
    | Some preBlock \<Rightarrow>
        (case parentTemp preBlock of
          Panics \<Rightarrow> Panics
        | Returns temp \<Rightarrow> ValidateBody_anchors v block temp))"

definition ValidateBody :: "BlockValidator \<Rightarrow> SnailBlock \<Rightarrow> verror option outcome" where
  "ValidateBody v block =
    (if IsCanonicalBlock v (BlockHash v block) (NumberU64 block) then Returns (Some ErrKnownBlock)
     else if \<not> IsCanonicalBlock v (SnailHeader.ParentHash (header block)) (NumberU64 block - 1) then
       (if \<not> HasBlock v (SnailHeader.ParentHash (header block)) (NumberU64 block - 1)
        then Returns (Some ErrUnknownAncestor)
        else Returns (Some ErrPrunedAncestor))
     else
       let count = int (length (Fruits block)) in
       if count = 0 then Returns (Some ErrNoFruits)
       else if count > MaximumFruits v \<or> count < MinimumFruits v then Returns (Some ErrNoFruits)
       else ValidateBody_parent v block)"

subsection \<open>The checks of the body validation, one by one\<close>

text \<open>
  To state in which order \<^verbatim>\<open>ValidateBody\<close> decides, each of its tests is written once
  more as a check of its own, on the validator and the candidate alone. A list of checks
  is run from the left and stops at the first one that does not pass.
\<close>

fun firstFailure :: "verror option outcome list \<Rightarrow> verror option outcome" where
  "firstFailure [] = Returns None"
| "firstFailure (c # cs) = (case c of Returns None \<Rightarrow> firstFailure cs | r \<Rightarrow> r)"

definition checkKnown :: "BlockValidator \<Rightarrow> SnailBlock \<Rightarrow> verror option outcome" where
  "checkKnown v block =
    (if IsCanonicalBlock v (BlockHash v block) (NumberU64 block)
     then Returns (Some ErrKnownBlock) else Returns None)"

definition checkAncestor :: "BlockValidator \<Rightarrow> SnailBlock \<Rightarrow> verror option outcome" where
  "checkAncestor v block =
    (if IsCanonicalBlock v (SnailHeader.ParentHash (header block)) (NumberU64 block - 1)
     then Returns None
     else if HasBlock v (SnailHeader.ParentHash (header block)) (NumberU64 block - 1)
     then Returns (Some ErrPrunedAncestor)
     else Returns (Some ErrUnknownAncestor))"

definition checkFruitCount :: "BlockValidator \<Rightarrow> SnailBlock \<Rightarrow> verror option outcome" where
  "checkFruitCount v block =
    (if Fruits block = [] \<or> int (length (Fruits block)) > MaximumFruits v
        \<or> int (length (Fruits block)) < MinimumFruits v
     then Returns (Some ErrNoFruits) else Returns None)"

definition checkParent :: "BlockValidator \<Rightarrow> SnailBlock \<Rightarrow> verror option outcome" where
  "checkParent v block =
    (case GetBlock v (SnailHeader.ParentHash (header block)) (NumberU64 block - 1) of
      None \<Rightarrow> Returns (Some ErrUnknownAncestor)
    | Some preBlock \<Rightarrow> (case parentTemp preBlock of Panics \<Rightarrow> Panics | Returns temp \<Rightarrow> Returns None))"

definition startTemp :: "BlockValidator \<Rightarrow> SnailBlock \<Rightarrow> uint64" where
  "startTemp v block =
    (case GetBlock v (SnailHeader.ParentHash (header block)) (NumberU64 block - 1) of
      None \<Rightarrow> 0
    | Some preBlock \<Rightarrow> (case parentTemp preBlock of Panics \<Rightarrow> 0 | Returns temp \<Rightarrow> temp))"

definition anchoredHeader :: "BlockValidator \<Rightarrow> SnailBlock \<Rightarrow> Header option outcome" where
  "anchoredHeader v fruit =
    (case FastNumber (header fruit) of
      None \<Rightarrow> Panics
    | Some n \<Rightarrow> Returns (GetHeader v (FastHash (header fruit)) (Uint64 n)))"

definition checkAnchoredRange :: "BlockValidator \<Rightarrow> SnailBlock \<Rightarrow> verror option outcome" where
  "checkAnchoredRange v block =
    (case (anchoredHeader v (last (Fruits block)), anchoredHeader v (hd (Fruits block))) of
      (Returns maxfb, Returns minfb) \<Rightarrow>
        if minfb = None \<or> maxfb = None then Returns (Some ErrFutureBlock) else Returns None
    | _ \<Rightarrow> Panics)"

definition checkBlockTime :: "BlockValidator \<Rightarrow> SnailBlock \<Rightarrow> verror option outcome" where
  "checkBlockTime v block =
    (case (SnailHeader.Time (header (last (Fruits block))), SnailHeader.Time (header block)) of
      (Some fruitTime, Some blockTime) \<Rightarrow>
        if blockTime < fruitTime then Returns (Some ErrBlockTime) else Returns None
    | _ \<Rightarrow> Returns (Some ErrBlockTime))"

definition checkTimeGap :: "BlockValidator \<Rightarrow> SnailBlock \<Rightarrow> verror option outcome" where
  "checkTimeGap v block =
    (case (anchoredHeader v (last (Fruits block)), anchoredHeader v (hd (Fruits block))) of
      (Returns (Some maxfb), Returns (Some minfb)) \<Rightarrow>
        (case (Header.Time maxfb, Header.Time minfb) of
          (Some maxt, Some mint) \<Rightarrow>
            if maxt - mint < MinTimeGap v then Returns (Some ErrGapFruits) else Returns None
        | _ \<Rightarrow> Panics)
    | _ \<Rightarrow> Panics)"

definition checkContiguous :: "uint64 \<Rightarrow> SnailBlock \<Rightarrow> verror option outcome" where
  "checkContiguous temp fruit =
    (case FastNumber (header fruit) of
      None \<Rightarrow> Panics
    | Some n \<Rightarrow> if Uint64 n = temp + 1 then Returns None else Returns (Some ErrInvalidFruits))"

definition anchorOf :: "uint64 \<Rightarrow> SnailBlock \<Rightarrow> uint64" where
  "anchorOf temp fruit = (case FastNumber (header fruit) of None \<Rightarrow> temp | Some n \<Rightarrow> Uint64 n)"

definition checkFruitsHash :: "BlockValidator \<Rightarrow> SnailBlock \<Rightarrow> verror option outcome" where
  "checkFruitsHash v block =
    (if DeriveSha v (Fruits block) = FruitsHash (header block) then Returns None
     else Returns (Some (FruitsHashMismatch (DeriveSha v (Fruits block)) (FruitsHash (header block)))))"

text \<open>
  Contiguity as the specification words it: every fruit, in order, anchors the fast
  block number \<open>temp + 1\<close>, and \<open>temp\<close> advances to that number. \<open>lastAnchor\<close> is the
  value of \<open>temp\<close> after a list of fruits.
\<close>

fun contiguous :: "uint64 \<Rightarrow> SnailBlock list \<Rightarrow> bool" where
  "contiguous temp [] = True"
| "contiguous temp (fruit # rest) =
    (case FastNumber (header fruit) of
      None \<Rightarrow> False
    | Some n \<Rightarrow> Uint64 n = temp + 1 \<and> contiguous (Uint64 n) rest)"

fun lastAnchor :: "uint64 \<Rightarrow> SnailBlock list \<Rightarrow> uint64" where
  "lastAnchor temp [] = temp"
| "lastAnchor temp (fruit # rest) = lastAnchor (anchorOf temp fruit) rest"

text \<open>
  The anchored-range, block-time and time-gap tests (lines 126 to 140) all pass.
\<close>

definition anchorsAccepted :: "BlockValidator \<Rightarrow> SnailBlock \<Rightarrow> bool" where
  "anchorsAccepted v block =
    (checkAnchoredRange v block = Returns None \<and> checkBlockTime v block = Returns None
     \<and> checkTimeGap v block = Returns None)"

text \<open>
  The checks of the fruit loop in the order the source runs them: for each fruit its
  contiguity with the running \<open>temp\<close>, then its validation, then the next fruit.
\<close>

fun fruitChecks ::
  "BlockValidator \<Rightarrow> SnailBlock \<Rightarrow> uint64 \<Rightarrow> SnailBlock list \<Rightarrow> verror option outcome list" where
  "fruitChecks v block temp [] = []"
| "fruitChecks v block temp (fruit # rest) =
    checkContiguous temp fruit # ValidateFruit v fruit (Some block) False
      # fruitChecks v block (anchorOf temp fruit) rest"

definition checksInSourceOrder ::
  "BlockValidator \<Rightarrow> SnailBlock \<Rightarrow> verror option outcome list" where
  "checksInSourceOrder v block =
    [checkKnown v block, checkAncestor v block, checkFruitCount v block, checkParent v block,
     checkAnchoredRange v block, checkBlockTime v block, checkTimeGap v block]
    @ fruitChecks v block (startTemp v block) (Fruits block)
    @ [checkFruitsHash v block]"

text \<open>
  The order the specification lists: contiguity of the whole fruit list (step 4) before
  the anchored-range resolution (step 5), the block time (6) and the time gap (7), and
  the validation of the fruits (step 8) only after all of them.
\<close>

definition checkContiguity :: "BlockValidator \<Rightarrow> SnailBlock \<Rightarrow> verror option outcome" where
  "checkContiguity v block =
    (if contiguous (startTemp v block) (Fruits block) then Returns None
     else Returns (Some ErrInvalidFruits))"

definition ValidateBody_spec_order :: "BlockValidator \<Rightarrow> SnailBlock \<Rightarrow> verror option outcome" where
  "ValidateBody_spec_order v block =
    firstFailure
      ([checkKnown v block, checkAncestor v block, checkFruitCount v block, checkParent v block,
        checkContiguity v block,
        checkAnchoredRange v block, checkBlockTime v block, checkTimeGap v block]
       @ map (\<lambda>fruit. ValidateFruit v fruit (Some block) False) (Fruits block)
       @ [checkFruitsHash v block])"

subsection \<open>A sample chain for the validator\<close>

text \<open>
  Two canonical snail blocks that can serve as parents: hash 55 at height 5, whose last
  fruit anchors fast block 100, and hash 77 at height 8, whose last fruit anchors fast
  block 149. The fast chain holds blocks up to 200 (block \<open>n\<close> has hash \<open>n\<close> and time
  \<open>10 n\<close>). The engine accepts every fruit but the one anchoring fast block 150. A
  block carries between 1 and 4 fruits, and the minimum time gap is 20.
\<close>

definition sampleFruit :: "int \<Rightarrow> SnailBlock" where
  "sampleFruit n =
    SnailBlock \<lparr>SnailHeader.ParentHash = 0, Coinbase = 0, FruitsHash = 0, SignHash = 0,
      FastHash = word_of_int n, FastNumber = Some n, Difficulty = None,
      FruitDifficulty = Some 1, MixDigest = 0, SnailHeader.Number = 0,
      SnailHeader.Time = Some (10 * n + 5), SnailHeader.Extra = [], Nonce = 0\<rparr> [] []"

definition sampleBlock :: "int \<Rightarrow> Hash \<Rightarrow> int list \<Rightarrow> SnailBlock" where
  "sampleBlock height parent anchors =
    SnailBlock \<lparr>SnailHeader.ParentHash = parent, Coinbase = 0,
      FruitsHash = of_nat (length anchors), SignHash = 0, FastHash = 0, FastNumber = None,
      Difficulty = Some 1, FruitDifficulty = None, MixDigest = 0,
      SnailHeader.Number = height, SnailHeader.Time = Some 3000, SnailHeader.Extra = [],
      Nonce = 0\<rparr> (map sampleFruit anchors) []"

definition sampleFastHeader :: "uint64 \<Rightarrow> Header" where
  "sampleFastHeader n =
    \<lparr>Header.ParentHash = 0, Root = 0, Header.Number = uint n, Header.Time = Some (10 * uint n),
      Header.Extra = [], GasLimit = 0, GasUsed = 0\<rparr>"

definition sampleValidator :: BlockValidator where
  "sampleValidator =
    \<lparr>MaximumFruits = 4, MinimumFruits = 1, MinTimeGap = 20,
      IsCanonicalBlock = (\<lambda>h n. (h = 55 \<and> n = 5) \<or> (h = 77 \<and> n = 8)),
      HasBlock = (\<lambda>h n. (h = 55 \<and> n = 5) \<or> (h = 77 \<and> n = 8)),
      GetBlock = (\<lambda>h n. if h = 55 \<and> n = 5 then Some (sampleBlock 5 44 [98, 99, 100])
                         else if h = 77 \<and> n = 8 then Some (sampleBlock 8 66 [148, 149])
                         else None),
      GetHeader = (\<lambda>h n. if uint h = uint n \<and> n \<le> 200 then Some (sampleFastHeader n) else None),
      CurrentHeaderNumber = 200,
      VerifyFreshness = (\<lambda>h b c. None),
      VerifySnailHeader = (\<lambda>h. None),
      VerifySigns = (\<lambda>n h s. if n = 150 then Some (EngineError ''bad signs'') else None),
      CalcSignHash = (\<lambda>s. 0),
      DeriveSha = (\<lambda>fs. of_nat (length fs)),
      BlockHash = (\<lambda>b. word_of_int (SnailHeader.Number (header b) * 11))\<rparr>"

section \<open>Genesis\<close>

subsection \<open>The genesis specification\<close>

text \<open>
  Modelled from the spec: \<^verbatim>\<open>params.ChainConfig\<close>, the protocol parameters of a network,
  is not in the sources; only its identity matters here, so it is reduced to the
  network identifier.
\<close>

datatype ChainConfig = ChainConfig (ChainID: int)

text \<open>
  Modelled from the spec: \<^verbatim>\<open>types.CommitteeMember\<close> (beneficiary address, derived
  committee-base address, public key bytes, membership flag, member-type tag) and the
  fast block as \<^verbatim>\<open>types.NewBlock\<close> builds it for the genesis: the header and the
  committee members, no transactions, receipts or signatures.
\<close>

record CommitteeMember =
  Coinbase :: Address
  CommitteeBase :: Address
  Publickey :: bytes
  Flag :: "32 word"
  MType :: "32 word"

datatype Block = Block (fastHeader: Header) (SwitchInfos: "CommitteeMember list")

record GenesisAccount =
  Code :: bytes
  Storage :: "(Hash \<times> Hash) list"
  Balance :: "int option"
  Nonce :: uint64
  PrivateKey :: bytes

text \<open>
  \<^verbatim>\<open>Genesis\<close>. \<^verbatim>\<open>Config\<close> and \<^verbatim>\<open>Difficulty\<close> are pointers the source tests for nil.
  \<^verbatim>\<open>Alloc\<close> is a Go map, kept as a list of bindings.
\<close>

record Genesis =
  Config :: "ChainConfig option"
  Nonce :: uint64
  Timestamp :: uint64
  ExtraData :: bytes
  GasLimit :: uint64
  Difficulty :: "int option"
  Mixhash :: Hash
  Coinbase :: Address
  Alloc :: "(Address \<times> GenesisAccount) list"
  Committee :: "CommitteeMember list"
  Number :: uint64
  GasUsed :: uint64
  ParentHash :: Hash

datatype ConfigCompatError = ConfigCompatError (RewindTo: uint64)

text \<open>
  The errors of the genesis setup: the missing configuration, the mismatch with its
  two hashes (stored, new), the configuration conflict, and the two formatted errors
  (a genesis number above zero, a head header without a number).
\<close>

datatype gerror =
    errGenesisNoConfig
  | GenesisMismatchError (Stored: Hash) (New: Hash)
  | CompatError ConfigCompatError
  | errCommitNumber
  | errMissingNumber

subsection \<open>What the genesis code takes from other packages\<close>

text \<open>
  \<^verbatim>\<open>crypto.UnmarshalPubkey\<close> returns a nil key with an error on bytes that do not encode
  a public key; \<^verbatim>\<open>crypto.PubkeyToAddress\<close> derives the address of a key. The flags of
  \<^verbatim>\<open>types\<close>, the constants, configurations and well-known hashes of \<^verbatim>\<open>params\<close>, the
  state root that replaying the allocation yields, the two block hashes and the
  compatibility test of \<^verbatim>\<open>params.ChainConfig\<close> are parameters as well.
\<close>

type_synonym PublicKey = "int \<times> int"

record GenesisEnv =
  UnmarshalPubkey :: "bytes \<Rightarrow> PublicKey option"
  PubkeyToAddress :: "PublicKey \<Rightarrow> Address"
  StateUsedFlag :: "32 word"
  TypeFixed :: "32 word"
  GenesisGasLimit :: uint64
  GenesisDifficulty :: int
  FruitBlockRatio :: int
  AllMinervaProtocolChanges :: ChainConfig
  MainnetChainConfig :: ChainConfig
  TestnetChainConfig :: ChainConfig
  MainnetGenesisHash :: Hash
  MainnetSnailGenesisHash :: Hash
  TestnetGenesisHash :: Hash
  TestnetSnailGenesisHash :: Hash
  IntermediateRoot :: "(Address \<times> GenesisAccount) list \<Rightarrow> Hash"
  HashBlock :: "Block \<Rightarrow> Hash"
  HashSnailBlock :: "SnailBlock \<Rightarrow> Hash"
  CheckCompatible :: "ChainConfig \<Rightarrow> ChainConfig option \<Rightarrow> uint64 \<Rightarrow> ConfigCompatError option"

text \<open>
  Modelled from the spec: the database with the accessors of \<^verbatim>\<open>rawdb\<close> (fast ledger)
  and \<^verbatim>\<open>snaildb\<close> (snail ledger), which are not in the sources. Each ledger has its
  canonical-hash index by height, its head-block and head-header pointers and its block
  store; the fast ledger also the receipts, the chain configuration by genesis hash, the
  reward marker and the committed state roots; the snail ledger the total difficulty
  and the fruit lookup index by anchored fast hash. A canonical hash that is absent
  reads as the zero hash. A write is an update of the record.
\<close>

record Database =
  canonicalHash :: "uint64 \<rightharpoonup> Hash"
  headBlockHash :: "Hash option"
  headHeaderHash :: "Hash option"
  blockStore :: "Hash \<rightharpoonup> Block"
  receiptStore :: "Hash \<rightharpoonup> nat"
  chainConfig :: "Hash \<rightharpoonup> ChainConfig"
  stateGcBR :: "uint64 option"
  stateStore :: "Hash set"
  snailCanonicalHash :: "uint64 \<rightharpoonup> Hash"
  snailHeadBlockHash :: "Hash option"
  snailHeadHeaderHash :: "Hash option"
  snailBlockStore :: "Hash \<rightharpoonup> SnailBlock"
  snailTd :: "Hash \<rightharpoonup> int option"
  ftLookup :: "Hash \<rightharpoonup> Hash"

definition NewMemDatabase :: Database where
  "NewMemDatabase =
    \<lparr>canonicalHash = Map.empty, headBlockHash = None, headHeaderHash = None,
      blockStore = Map.empty, receiptStore = Map.empty, chainConfig = Map.empty,
      stateGcBR = None, stateStore = {},
      snailCanonicalHash = Map.empty, snailHeadBlockHash = None, snailHeadHeaderHash = None,
      snailBlockStore = Map.empty, snailTd = Map.empty, ftLookup = Map.empty\<rparr>"

definition ReadCanonicalHash :: "Database \<Rightarrow> uint64 \<Rightarrow> Hash" where
  "ReadCanonicalHash db n = (case canonicalHash db n of None \<Rightarrow> 0 | Some h \<Rightarrow> h)"

definition ReadSnailCanonicalHash :: "Database \<Rightarrow> uint64 \<Rightarrow> Hash" where
  "ReadSnailCanonicalHash db n = (case snailCanonicalHash db n of None \<Rightarrow> 0 | Some h \<Rightarrow> h)"

definition ReadHeadHeaderHash :: "Database \<Rightarrow> Hash" where
  "ReadHeadHeaderHash db = (case headHeaderHash db of None \<Rightarrow> 0 | Some h \<Rightarrow> h)"

definition ReadHeaderNumber :: "Database \<Rightarrow> Hash \<Rightarrow> uint64 option" where
  "ReadHeaderNumber db h = map_option (\<lambda>b. Uint64 (Header.Number (fastHeader b))) (blockStore db h)"

definition ReadChainConfig :: "Database \<Rightarrow> Hash \<Rightarrow> ChainConfig option" where
  "ReadChainConfig db h = chainConfig db h"

definition WriteChainConfig :: "Database \<Rightarrow> Hash \<Rightarrow> ChainConfig option \<Rightarrow> Database" where
  "WriteChainConfig db h cfg =
    (case cfg of None \<Rightarrow> db | Some c \<Rightarrow> db\<lparr>chainConfig := (chainConfig db)(h \<mapsto> c)\<rparr>)"

definition WriteFtLookupEntries :: "Database \<Rightarrow> Hash \<Rightarrow> SnailBlock \<Rightarrow> Database" where
  "WriteFtLookupEntries db h block =
    db\<lparr>ftLookup := fold (\<lambda>fruit m. m(FastHash (header fruit) \<mapsto> h)) (Fruits block) (ftLookup db)\<rparr>"

subsection \<open>Building the two genesis blocks\<close>

text \<open>
  \<^verbatim>\<open>(*big.Int).Div\<close> is Euclidean division and panics on a zero divisor.
\<close>

definition bigDiv :: "int \<Rightarrow> int \<Rightarrow> int outcome" where
  "bigDiv x y =
    (if y = 0 then Panics
     else if y > 0 then Returns (x div y)
     else Returns (- (x div (- y))))"

text \<open>
  The loop of \<^verbatim>\<open>ToFastBlock\<close> over the committee (lines 276 to 281). The error of
  \<^verbatim>\<open>UnmarshalPubkey\<close> is dropped, and \<^verbatim>\<open>*pubkey\<close> dereferences the returned pointer:
  a nil pointer panics. The members are updated in place, so the specification holds
  the updated members afterwards.
\<close>

fun normalizeCommittee :: "GenesisEnv \<Rightarrow> CommitteeMember list \<Rightarrow> CommitteeMember list outcome" where
  "normalizeCommittee env [] = Returns []"
| "normalizeCommittee env (member # rest) =
    (case UnmarshalPubkey env (Publickey member) of
      None \<Rightarrow> Panics
    | Some pubkey \<Rightarrow>
        (case normalizeCommittee env rest of
          Panics \<Rightarrow> Panics
        | Returns members \<Rightarrow>
            Returns (member\<lparr>Flag := StateUsedFlag env, MType := TypeFixed env,
                            CommitteeBase := PubkeyToAddress env pubkey\<rparr> # members)))"

text \<open>
  \<^verbatim>\<open>ToFastBlock\<close>. Without a database the state goes to a fresh in-memory one. The
  result is the block, the specification with its updated committee, and the database
  written to.
\<close>

definition ToFastBlock ::
  "GenesisEnv \<Rightarrow> Genesis \<Rightarrow> Database option \<Rightarrow> (Block \<times> Genesis \<times> Database) outcome" where
  "ToFastBlock env g dbo =
    (let db = (case dbo of None \<Rightarrow> NewMemDatabase | Some d \<Rightarrow> d);
         root = IntermediateRoot env (Alloc g);
         head = \<lparr>Header.ParentHash = Genesis.ParentHash g, Root = root,
                 Header.Number = uint (Genesis.Number g),
                 Header.Time = Some (uint (Timestamp g)),
                 Header.Extra = ExtraData g,
                 Header.GasLimit =
                   (if Genesis.GasLimit g = 0 then GenesisGasLimit env else Genesis.GasLimit g),
                 Header.GasUsed = Genesis.GasUsed g\<rparr>;
         db = db\<lparr>stateStore := insert root (stateStore db)\<rparr>
     in case normalizeCommittee env (Committee g) of
          Panics \<Rightarrow> Panics
        | Returns members \<Rightarrow> Returns (Block head members, g\<lparr>Committee := members\<rparr>, db))"

text \<open>
  Modelled from the spec: \<^verbatim>\<open>types.NewSnailBlock(header, fruits, signs, uncles, config)\<close>
  is not in the sources; the block it builds carries the header, the fruit list and the
  signature list it is given.
\<close>

definition NewSnailBlock :: "SnailHeader \<Rightarrow> SnailBlock list \<Rightarrow> PbftSign list \<Rightarrow> SnailBlock" where
  "NewSnailBlock h fruits signs = SnailBlock h fruits signs"

text \<open>
  \<^verbatim>\<open>ToSnailBlock\<close>. Header fields the source does not set keep Go's zero value. A nil
  difficulty is replaced by the default, in the header and in the specification.
\<close>

definition ToSnailBlock ::
  "GenesisEnv \<Rightarrow> Genesis \<Rightarrow> Database option \<Rightarrow> (SnailBlock \<times> Genesis \<times> Database) outcome" where
  "ToSnailBlock env g dbo =
    (let db = (case dbo of None \<Rightarrow> NewMemDatabase | Some d \<Rightarrow> d);
         difficulty = (case Genesis.Difficulty g of None \<Rightarrow> GenesisDifficulty env | Some d \<Rightarrow> d);
         head = \<lparr>SnailHeader.ParentHash = Genesis.ParentHash g,
                 SnailHeader.Coinbase = Genesis.Coinbase g,
                 FruitsHash = 0, SignHash = 0, FastHash = 0, FastNumber = None,
                 SnailHeader.Difficulty = Some difficulty, FruitDifficulty = None,
                 MixDigest = Mixhash g,
                 SnailHeader.Number = uint (Genesis.Number g),
                 SnailHeader.Time = Some (uint (Timestamp g)),
                 SnailHeader.Extra = ExtraData g,
                 SnailHeader.Nonce = Genesis.Nonce g\<rparr>;
         g = g\<lparr>Genesis.Difficulty := Some difficulty\<rparr>
     in case ToFastBlock env g (Some db) of
          Panics \<Rightarrow> Panics
        | Returns (fastBlock, g, db) \<Rightarrow>
            (case bigDiv difficulty (FruitBlockRatio env) of
              Panics \<Rightarrow> Panics
            | Returns fruitDifficulty \<Rightarrow>
                let fruitHead =
                      \<lparr>SnailHeader.ParentHash = Genesis.ParentHash g,
                        SnailHeader.Coinbase = Genesis.Coinbase g,
                        FruitsHash = 0, SignHash = 0,
                        FastHash = HashBlock env fastBlock,
                        FastNumber = Some (Header.Number (fastHeader fastBlock)),
                        SnailHeader.Difficulty = None,
                        FruitDifficulty = Some fruitDifficulty,
                        MixDigest = 0,
                        SnailHeader.Number = uint (Genesis.Number g),
                        SnailHeader.Time = Some (uint (Timestamp g)),
                        SnailHeader.Extra = [],
                        SnailHeader.Nonce = Genesis.Nonce g\<rparr>;
                    fruit = NewSnailBlock fruitHead [] []
                in Returns (NewSnailBlock head [fruit] [], g, db)))"

subsection \<open>Committing the genesis blocks\<close>

text \<open>
  \<^verbatim>\<open>CommitFast\<close> and \<^verbatim>\<open>CommitSnail\<close> return a nil block with an error when the block
  number is not zero, else the block after the writes.
\<close>

definition CommitFast ::
  "GenesisEnv \<Rightarrow> Genesis \<Rightarrow> Database \<Rightarrow> ((Block option \<times> gerror option) \<times> Genesis \<times> Database) outcome" where
  "CommitFast env g db =
    (case ToFastBlock env g (Some db) of
      Panics \<Rightarrow> Panics
    | Returns (block, g, db) \<Rightarrow>
        if Header.Number (fastHeader block) \<noteq> 0 then Returns ((None, Some errCommitNumber), g, db)
        else
          let hash = HashBlock env block;
              number = Uint64 (Header.Number (fastHeader block));
              db = db\<lparr>blockStore := (blockStore db)(hash \<mapsto> block)\<rparr>;
              db = db\<lparr>receiptStore := (receiptStore db)(hash \<mapsto> 0)\<rparr>;
              db = db\<lparr>canonicalHash := (canonicalHash db)(number \<mapsto> hash)\<rparr>;
              db = db\<lparr>headBlockHash := Some hash\<rparr>;
              db = db\<lparr>headHeaderHash := Some hash\<rparr>;
              db = db\<lparr>stateGcBR := Some number\<rparr>;
              config = (case Config g of None \<Rightarrow> AllMinervaProtocolChanges env | Some c \<Rightarrow> c);
              db = WriteChainConfig db hash (Some config)
          in Returns ((Some block, None), g, db))"

definition CommitSnail ::
  "GenesisEnv \<Rightarrow> Genesis \<Rightarrow> Database \<Rightarrow> ((SnailBlock option \<times> gerror option) \<times> Genesis \<times> Database) outcome" where
  "CommitSnail env g db =
    (case ToSnailBlock env g (Some db) of
      Panics \<Rightarrow> Panics
    | Returns (block, g, db) \<Rightarrow>
        if SnailHeader.Number (header block) \<noteq> 0 then Returns ((None, Some errCommitNumber), g, db)
        else
          let hash = HashSnailBlock env block;
              number = NumberU64 block;
              db = db\<lparr>snailTd := (snailTd db)(hash \<mapsto> Genesis.Difficulty g)\<rparr>;
              db = db\<lparr>snailBlockStore := (snailBlockStore db)(hash \<mapsto> block)\<rparr>;
              db = WriteFtLookupEntries db hash block;
              db = db\<lparr>snailCanonicalHash := (snailCanonicalHash db)(number \<mapsto> hash)\<rparr>;
              db = db\<lparr>snailHeadBlockHash := Some hash\<rparr>;
              db = db\<lparr>snailHeadHeaderHash := Some hash\<rparr>
          in Returns ((Some block, None), g, db))"

subsection \<open>The built-in main-net specification\<close>

text \<open>
  \<^verbatim>\<open>hexutil.MustDecode\<close> on the literals of \<^verbatim>\<open>DefaultGenesisBlock\<close>: the two characters
  \<^verbatim>\<open>0x\<close>, then two hexadecimal digits for each byte.
\<close>

definition hexDigit :: "char \<Rightarrow> nat" where
  "hexDigit c =
    (let n = (of_char c :: nat) in
     if 48 \<le> n \<and> n \<le> 57 then n - 48
     else if 97 \<le> n \<and> n \<le> 102 then n - 87
     else if 65 \<le> n \<and> n \<le> 70 then n - 55
     else 0)"

fun hexBytes :: "string \<Rightarrow> bytes" where
  "hexBytes (a # b # rest) = of_nat (16 * hexDigit a + hexDigit b) # hexBytes rest"
| "hexBytes rest = []"

definition MustDecode :: "string \<Rightarrow> bytes" where
  "MustDecode s = hexBytes (drop 2 s)"

definition mainnetKeys :: "string list" where
  "mainnetKeys =
    [''0x0406e9c1f797fe21229f8146f5ecf837a545e4d7e96dc88903286ce3036f425f307c88418f902c9b08fd07e0aee0f249994cf19819235fd607acd38ce77f777d1a'',
     ''0x04ce1b2f41acdb293408da34a84162bc313be4b8682c183c7bdd4891ac87c514549a14ac564a9de615e7e8eae75441b1332042a2d00160079b2714b4bed1665f29'',
     ''0x045e020f6f27adf1bdc8e682c6fb7a7623d8a5899fa88702d436b18e245e35dd4b573c28565b4105abb48a14d5aa442326c56a9eb2fa3f8509aea3f5625cfd621b'',
     ''0x04028b42cb580bd78579441c96fb25b54b284c3f3258bb7ec9e37828f716cfe2ca4fb3dabc51b3d4215f14715a0999c86ae9ce4bc4e4bccfbcf7b64b6969746fb8'',
     ''0x04a36c5cc785b10b8d5c7f18f6387f511c060ca0760c06b816db5cdb087723d185f034988ce1a117cd81138f7c971d272a6b6e8affa49ccf82df0d0388c644a6c1'',
     ''0x049b240252750233ffb2e2fb0872e9dc8029a0af2a0bf8cb494181eae1f2673d662bbbb56215a42cb509ec42e80b089e2d6be581d084f54efe094a3fba3e990717'',
     ''0x048a0560f53440a84bad6286eb65a756a1a1880492e19f7500e4f3ef760b939b9fafb9e14660ce5fc7a90d45136117690beac13121d22952d054d4727b39764468'',
     ''0x0409e96160f03587376c3dff6a3b2f8d6028afc25668aa653d7f1bfe9eff8fb1165474cb93d8b2f292a6e4364d5447ca28002ae211b1624e33447864511e1d4d5d'',
     ''0x040d721ac02c250be372156b4bf2620e6bec1799c70105705fc8aee7f11a11b2a6697086ca2161176b85b663f2d9b98275644fd3971af5d08fd7f6070f45314f55'',
     ''0x04487dc07260059573abe6e7bf3209c975985c49400092ec246d28cc4d1eb54a6f7f5eb8375a2f7d398f1e0bb75406e5d38451935cc16376ddbac5d057c66a231c'',
     ''0x04f3611f44cd7913fbd2452040716e13c8759743dd44a566e94df1f81078234a45d36259ede0186cbbec3e2e7bd638d7fca1586ddf47d596bb41c668e39021556a'',
     ''0x0465c75fa5e80eabd141b08a4345573d43d582b42aed524025e7dcac4919bc16eee14705f49da7f381747a5196de792ba4a11ede9079a9025e11bcb0930760ef2e'',
     ''0x049a943801bd862f0287eacb8221f13bff351c63b7ab78c9a1f71472ae8a8c28779f32c4dcfd904f36d9edb54d8a0c57462654026cde4f5022fe2d99b63174b9ae'',
     ''0x04c4e01103818ca955c9219000c297c928b02b89d0eb3043886f524d645e20251343bf117d5a1b553708638c7dca8d1a12fb6379ae2d20756b57fdc5052a0dd787'']"

definition DefaultGenesisBlock :: "GenesisEnv \<Rightarrow> Genesis" where
  "DefaultGenesisBlock env =
    \<lparr>Config = Some (MainnetChainConfig env),
      Genesis.Nonce = 330,
      Timestamp = 0,
      ExtraData = MustDecode ''0x54727565436861696E204D61696E4E6574'',
      Genesis.GasLimit = 16777216,
      Genesis.Difficulty = Some 2147483648,
      Mixhash = 0,
      Genesis.Coinbase = 0,
      Alloc =
        [(0xa5F41eaf51d24c8eDcDF254F200f8a6D818a6836,
            \<lparr>Code = [], Storage = [], Balance = Some 65750000000000000000000000,
              GenesisAccount.Nonce = 0, PrivateKey = []\<rparr>),
         (0xbD1edee3bdD812BB5058Df1F1392dDdd99dE58cc,
            \<lparr>Code = [], Storage = [], Balance = Some 8250000000000000000000000,
              GenesisAccount.Nonce = 0, PrivateKey = []\<rparr>)],
      Committee =
        map (\<lambda>key. \<lparr>CommitteeMember.Coinbase = 0xfC5659050350eB76F9Ebcc6c2b1598C3a2fFc625,
                      CommitteeBase = 0, Publickey = MustDecode key, Flag = 0, MType = 0\<rparr>)
          mainnetKeys,
      Genesis.Number = 0,
      Genesis.GasUsed = 0,
      Genesis.ParentHash = 0\<rparr>"

subsection \<open>Setting up the genesis blocks\<close>

definition configOrDefault :: "GenesisEnv \<Rightarrow> Genesis option \<Rightarrow> Hash \<Rightarrow> ChainConfig option" where
  "configOrDefault env g ghash =
    (case g of
      Some g \<Rightarrow> Config g
    | None \<Rightarrow>
        if ghash = MainnetGenesisHash env then Some (MainnetChainConfig env)
        else if ghash = MainnetSnailGenesisHash env then Some (MainnetChainConfig env)
        else if ghash = TestnetGenesisHash env then Some (TestnetChainConfig env)
        else if ghash = TestnetSnailGenesisHash env then Some (TestnetChainConfig env)
        else Some (AllMinervaProtocolChanges env))"

text \<open>
  A set-up function returns its results, the specification behind the caller's pointer
  (updated in place by the block construction; a nil pointer stays nil, the default
  specification being a local value) and the database after its writes.
\<close>

type_synonym setupResult = "ChainConfig option \<times> Hash \<times> gerror option"

text \<open>
  Lines 191 to 217 of \<^verbatim>\<open>setupFastGenesisBlock\<close>: the stored genesis matches, or no
  specification was given.
\<close>

definition setupFastConfig ::
  "GenesisEnv \<Rightarrow> Database \<Rightarrow> Genesis option \<Rightarrow> Hash \<Rightarrow> (setupResult \<times> Genesis option \<times> Database) outcome" where
  "setupFastConfig env db genesis stored =
    (let newcfg = configOrDefault env genesis stored in
     case ReadChainConfig db stored of
       None \<Rightarrow> Returns ((newcfg, stored, None), genesis, WriteChainConfig db stored newcfg)
     | Some storedcfg \<Rightarrow>
         if genesis = None \<and> stored \<noteq> MainnetGenesisHash env
         then Returns ((Some storedcfg, stored, None), genesis, db)
         else
           (case ReadHeaderNumber db (ReadHeadHeaderHash db) of
             None \<Rightarrow> Returns ((newcfg, stored, Some errMissingNumber), genesis, db)
           | Some height \<Rightarrow>
               (case CheckCompatible env storedcfg newcfg height of
                 None \<Rightarrow> Returns ((newcfg, stored, None), genesis, WriteChainConfig db stored newcfg)
               | Some compatErr \<Rightarrow>
                   if height \<noteq> 0 \<and> RewindTo compatErr \<noteq> 0
                   then Returns ((newcfg, stored, Some (CompatError compatErr)), genesis, db)
                   else Returns ((newcfg, stored, None), genesis, WriteChainConfig db stored newcfg))))"

text \<open>
  \<^verbatim>\<open>setupFastGenesisBlock\<close>. After a commit that returned a nil block,
  \<^verbatim>\<open>block.Hash()\<close> dereferences nil and panics.
\<close>

definition setupFastGenesisBlock ::
  "GenesisEnv \<Rightarrow> Database \<Rightarrow> Genesis option \<Rightarrow> (setupResult \<times> Genesis option \<times> Database) outcome" where
  "setupFastGenesisBlock env db genesis =
    (if genesis \<noteq> None \<and> Config (the genesis) = None
     then Returns ((Some (AllMinervaProtocolChanges env), 0, Some errGenesisNoConfig), genesis, db)
     else
       let stored = ReadCanonicalHash db 0 in
       if stored = 0 then
         (case CommitFast env (case genesis of None \<Rightarrow> DefaultGenesisBlock env | Some g \<Rightarrow> g) db of
           Panics \<Rightarrow> Panics
         | Returns ((None, err), g, db) \<Rightarrow> Panics
         | Returns ((Some block, err), g, db) \<Rightarrow>
             Returns ((Config g, HashBlock env block, err), map_option (\<lambda>old. g) genesis, db))
       else
         (case genesis of
           None \<Rightarrow> setupFastConfig env db None stored
         | Some g \<Rightarrow>
             (case ToFastBlock env g None of
               Panics \<Rightarrow> Panics
             | Returns (block, g, discarded) \<Rightarrow>
                 let hash = HashBlock env block in
                 if hash \<noteq> stored
                 then Returns ((Config g, hash, Some (GenesisMismatchError stored hash)), Some g, db)
                 else setupFastConfig env db (Some g) stored)))"

definition setupSnailGenesisBlock ::
  "GenesisEnv \<Rightarrow> Database \<Rightarrow> Genesis option \<Rightarrow> (setupResult \<times> Genesis option \<times> Database) outcome" where
  "setupSnailGenesisBlock env db genesis =
    (if genesis \<noteq> None \<and> Config (the genesis) = None
     then Returns ((Some (AllMinervaProtocolChanges env), 0, Some errGenesisNoConfig), genesis, db)
     else
       let stored = ReadSnailCanonicalHash db 0 in
       if stored = 0 then
         (case CommitSnail env (case genesis of None \<Rightarrow> DefaultGenesisBlock env | Some g \<Rightarrow> g) db of
           Panics \<Rightarrow> Panics
         | Returns ((None, err), g, db) \<Rightarrow> Panics
         | Returns ((Some block, err), g, db) \<Rightarrow>
             Returns ((Config g, HashSnailBlock env block, err), map_option (\<lambda>old. g) genesis, db))
       else
         (case genesis of
           None \<Rightarrow> Returns ((configOrDefault env None stored, stored, None), None, db)
         | Some g \<Rightarrow>
             (case ToSnailBlock env g None of
               Panics \<Rightarrow> Panics
             | Returns (block, g, discarded) \<Rightarrow>
                 let hash = HashSnailBlock env block in
                 if hash \<noteq> stored
                 then Returns ((Config g, hash, Some (GenesisMismatchError stored hash)), Some g, db)
                 else Returns ((configOrDefault env (Some g) stored, stored, None), Some g, db))))"

text \<open>
  \<^verbatim>\<open>SetupGenesisBlock\<close>. Lines 145 and 146 run the two sub-protocols one after the
  other on the same database; line 148 builds the result from the fast configuration,
  the two hashes and the fast error. The configuration and the error of the snail
  sub-protocol are assigned to the blank identifier.
\<close>

definition runSubProtocols ::
  "GenesisEnv \<Rightarrow> Database \<Rightarrow> Genesis option
    \<Rightarrow> ((setupResult \<times> setupResult) \<times> Genesis option \<times> Database) outcome" where
  "runSubProtocols env db genesis =
    (case setupFastGenesisBlock env db genesis of
      Panics \<Rightarrow> Panics
    | Returns (fast, genesis, db) \<Rightarrow>
        (case setupSnailGenesisBlock env db genesis of
          Panics \<Rightarrow> Panics
        | Returns (snail, genesis, db) \<Rightarrow> Returns ((fast, snail), genesis, db)))"

definition SetupGenesisBlock ::
  "GenesisEnv \<Rightarrow> Database \<Rightarrow> Genesis option
    \<Rightarrow> ((ChainConfig option \<times> Hash \<times> Hash \<times> gerror option) \<times> Genesis option \<times> Database) outcome" where
  "SetupGenesisBlock env db genesis =
    (if genesis \<noteq> None \<and> Config (the genesis) = None
     then Returns ((Some (AllMinervaProtocolChanges env), 0, 0, Some errGenesisNoConfig), genesis, db)
     else
       (case runSubProtocols env db genesis of
         Panics \<Rightarrow> Panics
       | Returns (((fastConfig, fastHash, fastErr), (snailConfig, snailHash, snailErr)), genesis, db) \<Rightarrow>
           Returns ((fastConfig, fastHash, snailHash, fastErr), genesis, db)))"

text \<open>
  The values a call returned, and the database it left, when it did not panic.
\<close>

definition returned :: "('a \<times> 'g \<times> 'd) outcome \<Rightarrow> 'a option" where
  "returned r = (case r of Panics \<Rightarrow> None | Returns (x, g, d) \<Rightarrow> Some x)"

definition databaseAfter :: "('a \<times> 'g \<times> 'd) outcome \<Rightarrow> 'd option" where
  "databaseAfter r = (case r of Panics \<Rightarrow> None | Returns (x, g, d) \<Rightarrow> Some d)"

text \<open>
  A committee member as the genesis construction must leave it: the committee-base
  address is the address of the key its public key bytes decode to, the flag is
  \<^verbatim>\<open>StateUsedFlag\<close> and the type is \<^verbatim>\<open>TypeFixed\<close>.
\<close>

definition genesisMember :: "GenesisEnv \<Rightarrow> CommitteeMember \<Rightarrow> bool" where
  "genesisMember env member =
    (case UnmarshalPubkey env (Publickey member) of
      None \<Rightarrow> False
    | Some pubkey \<Rightarrow>
        CommitteeBase member = PubkeyToAddress env pubkey
        \<and> Flag member = StateUsedFlag env \<and> MType member = TypeFixed env)"

subsection \<open>A sample network for the genesis set-up\<close>

text \<open>
  A toy key format (65 bytes, the first one 4), toy hashes (the state root counts the
  allocations, a fast block hashes to its root plus 1, a snail block to the fast hash of
  its first fruit plus 100), a specification with one committee member, and databases:
  one holding other genesis blocks in both ledgers (hashes 999 and 888), and one holding
  the committed fast genesis of the sample specification beside another snail genesis.
\<close>

definition sampleEnv :: GenesisEnv where
  "sampleEnv =
    \<lparr>UnmarshalPubkey =
        (\<lambda>bs. if length bs = 65 \<and> hd bs = 4 then Some (uint (last bs), 65) else None),
      PubkeyToAddress = (\<lambda>(x, y). word_of_int (1000 * x + y)),
      StateUsedFlag = 161, TypeFixed = 1,
      GenesisGasLimit = 4712388, GenesisDifficulty = 1000, FruitBlockRatio = 600,
      AllMinervaProtocolChanges = ChainConfig 1337,
      MainnetChainConfig = ChainConfig 19330,
      TestnetChainConfig = ChainConfig 18928,
      MainnetGenesisHash = 1, MainnetSnailGenesisHash = 2,
      TestnetGenesisHash = 3, TestnetSnailGenesisHash = 4,
      IntermediateRoot = (\<lambda>alloc. of_nat (length alloc) + 7000),
      HashBlock = (\<lambda>b. Root (fastHeader b) + 1),
      HashSnailBlock = (\<lambda>b. (case Fruits b of [] \<Rightarrow> 0 | f # fs \<Rightarrow> FastHash (header f)) + 100),
      CheckCompatible = (\<lambda>stored new height. None)\<rparr>"

definition sampleMember :: "bytes \<Rightarrow> CommitteeMember" where
  "sampleMember key =
    \<lparr>CommitteeMember.Coinbase = 12, CommitteeBase = 0, Publickey = key, Flag = 0, MType = 0\<rparr>"

definition sampleGenesis :: "CommitteeMember list \<Rightarrow> Genesis" where
  "sampleGenesis members =
    \<lparr>Config = Some (ChainConfig 100), Genesis.Nonce = 66, Timestamp = 0, ExtraData = [],
      Genesis.GasLimit = 5000, Genesis.Difficulty = Some 6000, Mixhash = 0,
      Genesis.Coinbase = 0, Alloc = [], Committee = members, Genesis.Number = 0,
      Genesis.GasUsed = 0, Genesis.ParentHash = 0\<rparr>"

text \<open>
  A well-formed key, the member of \<open>sampleMember\<close> for it after the genesis
  construction (key (9, 65), address 9065), and the fast genesis block of the sample
  specification (state root 7000, hash 7001).
\<close>

definition sampleKey :: bytes where
  "sampleKey = 4 # replicate 64 9"

definition sampleCommittedMember :: CommitteeMember where
  "sampleCommittedMember =
    \<lparr>CommitteeMember.Coinbase = 12, CommitteeBase = 9065, Publickey = sampleKey,
      Flag = 161, MType = 1\<rparr>"

definition sampleFastBlock :: Block where
  "sampleFastBlock =
    Block \<lparr>Header.ParentHash = 0, Root = 7000, Header.Number = 0, Header.Time = Some 0,
            Header.Extra = [], Header.GasLimit = 5000, Header.GasUsed = 0\<rparr>
      [sampleCommittedMember]"

definition otherDb :: Database where
  "otherDb = NewMemDatabase\<lparr>canonicalHash := [0 \<mapsto> 999], snailCanonicalHash := [0 \<mapsto> 888]\<rparr>"

definition fastOnlyDb :: Database where
  "fastOnlyDb =
    (case CommitFast sampleEnv (sampleGenesis [sampleMember sampleKey]) NewMemDatabase of
      Panics \<Rightarrow> NewMemDatabase
    | Returns (r, g, db) \<Rightarrow> db\<lparr>snailCanonicalHash := [0 \<mapsto> 888]\<rparr>)"

section \<open>Properties of the body validation\<close>

lemmas sample_defs = sampleValidator_def sampleBlock_def sampleFruit_def sampleFastHeader_def
lemmas stage_defs = ValidateBody_def ValidateBody_parent_def ValidateBody_anchors_def ValidateBody_gap_def ValidateBody_fruits_def
   NumberU64_def Uint64_def parentTemp_def ValidateFruit_def
lemmas check_defs = checkKnown_def checkAncestor_def checkFruitCount_def checkParent_def startTemp_def anchoredHeader_def
  checkAnchoredRange_def checkBlockTime_def checkTimeGap_def checkContiguous_def anchorOf_def checkFruitsHash_def checkContiguity_def


lemma uint64_diff_one: "(a::uint64) - b \<noteq> 1 \<longleftrightarrow> a \<noteq> b + 1"
  by (metis diff_add_cancel add_diff_cancel_left')

lemma validateFruits_ok_contiguous:
  "validateFruits v block temp fs = Returns None \<Longrightarrow> contiguous temp fs"
  by (induction fs arbitrary: temp) (auto simp: uint64_diff_one split: option.splits outcome.splits if_splits)

lemma validateFruits_first_gap:
  "contiguous temp pre \<Longrightarrow> \<forall>x\<in>set pre. ValidateFruit v x (Some block) False = Returns None \<Longrightarrow>
   FastNumber (header f) = Some n \<Longrightarrow> Uint64 n \<noteq> lastAnchor temp pre + 1 \<Longrightarrow>
   validateFruits v block temp (pre @ f # rest) = Returns (Some ErrInvalidFruits)"
  by (induction pre arbitrary: temp) (auto simp: uint64_diff_one anchorOf_def split: option.splits outcome.splits if_splits)

lemma validateFruits_checks:
  "validateFruits v block temp fs = firstFailure (fruitChecks v block temp fs)"
  by (induction fs arbitrary: temp)
     (auto simp: uint64_diff_one checkContiguous_def anchorOf_def split: option.splits outcome.splits)

lemma firstFailure_append:
  "firstFailure (xs @ ys) = (case firstFailure xs of Returns None \<Rightarrow> firstFailure ys | r \<Rightarrow> r)"
  by (induction xs) (auto split: option.splits outcome.splits)

lemma ValidateBody_checks: "ValidateBody v block = firstFailure (checksInSourceOrder v block)"
  unfolding checksInSourceOrder_def
  by (auto simp: firstFailure_append validateFruits_checks[symmetric] ValidateBody_def ValidateBody_parent_def ValidateBody_anchors_def ValidateBody_gap_def ValidateBody_fruits_def
     check_defs Let_def split: option.splits outcome.splits)


lemma ValidateBody_past_count:
  assumes "\<not> IsCanonicalBlock v (BlockHash v block) (NumberU64 block)"
    and "IsCanonicalBlock v (SnailHeader.ParentHash (header block)) (NumberU64 block - 1)"
    and "Fruits block \<noteq> []"
    and "MinimumFruits v \<le> int (length (Fruits block))"
    and "int (length (Fruits block)) \<le> MaximumFruits v"
  shows "ValidateBody v block = ValidateBody_parent v block"
  using assms by (simp add: ValidateBody_def Let_def)

lemma ValidateBody_past_parent:
  assumes "\<not> IsCanonicalBlock v (BlockHash v block) (NumberU64 block)"
    and "IsCanonicalBlock v (SnailHeader.ParentHash (header block)) (NumberU64 block - 1)"
    and "Fruits block \<noteq> []"
    and "MinimumFruits v \<le> int (length (Fruits block))"
    and "int (length (Fruits block)) \<le> MaximumFruits v"
    and "GetBlock v (SnailHeader.ParentHash (header block)) (NumberU64 block - 1) = Some preBlock"
    and "parentTemp preBlock = Returns temp"
  shows "ValidateBody v block = ValidateBody_anchors v block temp"
  using assms by (simp add: ValidateBody_past_count ValidateBody_parent_def)

lemma anchorsAccepted_fruits:
  "anchorsAccepted v block \<Longrightarrow> ValidateBody_anchors v block temp = ValidateBody_fruits v block temp"
  by (auto simp: anchorsAccepted_def ValidateBody_anchors_def ValidateBody_gap_def Let_def
      checkAnchoredRange_def checkBlockTime_def checkTimeGap_def anchoredHeader_def
      split: option.splits outcome.splits if_splits)

text \<open>
  Claim C6. A candidate without fruits, or with a fruit count below the configured
  minimum or above the configured maximum, is never accepted and never panics: it is
  rejected by an earlier test or, when it reaches the fruit-count test (it is not a known
  block and its parent is canonical), with \<open>ErrNoFruits\<close>; for no fruits this holds
  whatever the configured minimum is. A count that is not zero and lies within the two
  bounds, both included, passes the test: the outcome of \<open>ValidateBody\<close> is then that of
  the rest of the function, from the parent lookup on.
\<close>

theorem ValidateBody_fruit_count:
  "(Fruits block = [] \<or> int (length (Fruits block)) < MinimumFruits v
      \<or> MaximumFruits v < int (length (Fruits block))
    \<longrightarrow> (\<exists>err. ValidateBody v block = Returns (Some err))
        \<and> (\<not> IsCanonicalBlock v (BlockHash v block) (NumberU64 block)
            \<and> IsCanonicalBlock v (SnailHeader.ParentHash (header block)) (NumberU64 block - 1)
           \<longrightarrow> ValidateBody v block = Returns (Some ErrNoFruits)))
   \<and> (Fruits block \<noteq> [] \<and> MinimumFruits v \<le> int (length (Fruits block))
      \<and> int (length (Fruits block)) \<le> MaximumFruits v
      \<and> \<not> IsCanonicalBlock v (BlockHash v block) (NumberU64 block)
      \<and> IsCanonicalBlock v (SnailHeader.ParentHash (header block)) (NumberU64 block - 1)
    \<longrightarrow> ValidateBody v block = ValidateBody_parent v block)"
  by (auto simp: ValidateBody_def Let_def)

text \<open>
  On the sample chain: no fruit with a minimum of 0, five fruits with a maximum of 4,
  and three fruits with bounds 1 and 4.
\<close>

theorem ValidateBody_fruit_count_witness:
  "ValidateBody (sampleValidator\<lparr>MinimumFruits := 0\<rparr>) (sampleBlock 6 55 []) = Returns (Some ErrNoFruits)
   \<and> ValidateBody sampleValidator (sampleBlock 6 55 [101, 102, 103, 104, 105]) = Returns (Some ErrNoFruits)
   \<and> ValidateBody sampleValidator (sampleBlock 6 55 [101, 102, 103])
       = ValidateBody_parent sampleValidator (sampleBlock 6 55 [101, 102, 103])"
  using ValidateBody_fruit_count [of "sampleBlock 6 55 []" "sampleValidator\<lparr>MinimumFruits := 0\<rparr>"]
    ValidateBody_fruit_count [of "sampleBlock 6 55 [101, 102, 103, 104, 105]" sampleValidator]
    ValidateBody_fruit_count [of "sampleBlock 6 55 [101, 102, 103]" sampleValidator]
  by (simp add: sample_defs NumberU64_def Uint64_def)

text \<open>
  Claim C7. For a candidate that reaches the time-gap test (every earlier test passed:
  the parent block was found, both anchored fast headers exist, the block time is not
  before the last fruit's time) and whose two anchored fast headers carry timestamps:
  when the last header's time minus the first header's time is strictly below
  \<open>MinTimeGap\<close>, the candidate fails with \<open>ErrGapFruits\<close>; when the difference equals
  \<open>MinTimeGap\<close> (or exceeds it) the test passes, and the outcome is that of the rest of
  the function, the loop over the fruits and the fruits hash.
\<close>

theorem ValidateBody_time_gap:
  assumes "\<not> IsCanonicalBlock v (BlockHash v block) (NumberU64 block)"
    and "IsCanonicalBlock v (SnailHeader.ParentHash (header block)) (NumberU64 block - 1)"
    and "Fruits block \<noteq> []"
    and "MinimumFruits v \<le> int (length (Fruits block))"
    and "int (length (Fruits block)) \<le> MaximumFruits v"
    and "GetBlock v (SnailHeader.ParentHash (header block)) (NumberU64 block - 1) = Some preBlock"
    and "parentTemp preBlock = Returns temp"
    and "FastNumber (header (last (Fruits block))) = Some maxn"
    and "FastNumber (header (hd (Fruits block))) = Some minn"
    and "GetHeader v (FastHash (header (last (Fruits block)))) (Uint64 maxn) = Some maxfb"
    and "GetHeader v (FastHash (header (hd (Fruits block)))) (Uint64 minn) = Some minfb"
    and "SnailHeader.Time (header (last (Fruits block))) = Some fruitTime"
    and "SnailHeader.Time (header block) = Some blockTime"
    and "fruitTime \<le> blockTime"
    and "Header.Time maxfb = Some maxt"
    and "Header.Time minfb = Some mint"
  shows "(maxt - mint < MinTimeGap v \<longrightarrow> ValidateBody v block = Returns (Some ErrGapFruits))
       \<and> (maxt - mint = MinTimeGap v \<longrightarrow> ValidateBody v block = ValidateBody_fruits v block temp)
       \<and> (MinTimeGap v < maxt - mint \<longrightarrow> ValidateBody v block = ValidateBody_fruits v block temp)"
proof -
  have "ValidateBody v block = ValidateBody_anchors v block temp"
    using assms(1-7) by (rule ValidateBody_past_parent)
  moreover have "ValidateBody_anchors v block temp = ValidateBody_gap v block temp minfb maxfb"
    using assms(8-14) by (simp add: ValidateBody_anchors_def Let_def)
  ultimately show ?thesis
    using assms(15,16) by (simp add: ValidateBody_gap_def Let_def)
qed

text \<open>
  On the sample chain the minimum gap is 20: fast blocks 101 and 102 are 10 apart,
  fast blocks 101 and 103 are exactly 20 apart.
\<close>

theorem ValidateBody_time_gap_witness:
  "ValidateBody sampleValidator (sampleBlock 6 55 [101, 102]) = Returns (Some ErrGapFruits)
   \<and> ValidateBody sampleValidator (sampleBlock 6 55 [101, 102, 103])
       = ValidateBody_fruits sampleValidator (sampleBlock 6 55 [101, 102, 103]) 100"
  using ValidateBody_time_gap [of sampleValidator "sampleBlock 6 55 [101, 102]"
      "sampleBlock 5 44 [98, 99, 100]" 100 102 101 "sampleFastHeader 102" "sampleFastHeader 101"
      1025 3000 1020 1010]
    ValidateBody_time_gap [of sampleValidator "sampleBlock 6 55 [101, 102, 103]"
      "sampleBlock 5 44 [98, 99, 100]" 100 103 101 "sampleFastHeader 103" "sampleFastHeader 101"
      1035 3000 1030 1010]
  by (simp add: sample_defs NumberU64_def Uint64_def parentTemp_def)

text \<open>
  Claim C1, as the code has it. For a candidate past the ancestor and fruit-count tests
  whose parent block is found, with \<open>temp\<close> started from the parent (zero for a parent of
  number zero, else the \<^verbatim>\<open>uint64\<close> anchored number of the parent's last fruit):
  \<open>ValidateBody\<close> accepts the candidate only if every fruit, in order, anchors exactly
  \<open>temp + 1\<close> in \<^verbatim>\<open>uint64\<close> arithmetic, \<open>temp\<close> advancing to each fruit's number. The
  error of the first fruit that breaks the sequence is \<open>ErrInvalidFruits\<close> provided the
  tests that the source runs earlier pass: the anchored-range, block-time and time-gap
  tests, and \<open>ValidateFruit\<close> on every fruit before that one.
\<close>

theorem ValidateBody_contiguity:
  assumes "\<not> IsCanonicalBlock v (BlockHash v block) (NumberU64 block)"
    and "IsCanonicalBlock v (SnailHeader.ParentHash (header block)) (NumberU64 block - 1)"
    and "Fruits block \<noteq> []"
    and "MinimumFruits v \<le> int (length (Fruits block))"
    and "int (length (Fruits block)) \<le> MaximumFruits v"
    and "GetBlock v (SnailHeader.ParentHash (header block)) (NumberU64 block - 1) = Some preBlock"
    and "parentTemp preBlock = Returns temp"
  shows "(ValidateBody v block = Returns None \<longrightarrow> contiguous temp (Fruits block))
       \<and> (\<forall>pre fruit rest n.
            anchorsAccepted v block \<and> Fruits block = pre @ fruit # rest
            \<and> contiguous temp pre
            \<and> (\<forall>f \<in> set pre. ValidateFruit v f (Some block) False = Returns None)
            \<and> FastNumber (header fruit) = Some n \<and> Uint64 n \<noteq> lastAnchor temp pre + 1
            \<longrightarrow> ValidateBody v block = Returns (Some ErrInvalidFruits))"
proof -
  have start: "ValidateBody v block = ValidateBody_anchors v block temp"
    using assms by (rule ValidateBody_past_parent)
  have accept: "contiguous temp (Fruits block)" if ok: "ValidateBody v block = Returns None"
  proof -
    have "validateFruits v block temp (Fruits block) = Returns None"
      using ok unfolding start
      by (auto simp: ValidateBody_anchors_def ValidateBody_gap_def ValidateBody_fruits_def Let_def
          split: option.splits outcome.splits if_splits)
    then show ?thesis by (rule validateFruits_ok_contiguous)
  qed
  have reject: "ValidateBody v block = Returns (Some ErrInvalidFruits)"
    if "anchorsAccepted v block" and "Fruits block = pre @ fruit # rest" and "contiguous temp pre"
      and "\<forall>f \<in> set pre. ValidateFruit v f (Some block) False = Returns None"
      and "FastNumber (header fruit) = Some n" and "Uint64 n \<noteq> lastAnchor temp pre + 1"
    for pre fruit rest n
  proof -
    have "validateFruits v block temp (Fruits block) = Returns (Some ErrInvalidFruits)"
      unfolding that(2) using that(3-6) by (rule validateFruits_first_gap)
    then show ?thesis
      using that(1) by (simp add: start anchorsAccepted_fruits ValidateBody_fruits_def)
  qed
  from accept reject show ?thesis by blast
qed

text \<open>
  On the sample chain the parent's last fruit anchors fast block 100: the anchors
  101, 102, 103 are accepted and contiguous; 101, 103, 104 (a gap after a valid first
  fruit) and 100, 101, 102 (a repeat of the parent's last anchor) yield
  \<open>ErrInvalidFruits\<close>.
\<close>

theorem ValidateBody_contiguity_witness:
  "contiguous 100 (Fruits (sampleBlock 6 55 [101, 102, 103]))
   \<and> ValidateBody sampleValidator (sampleBlock 6 55 [101, 103, 104]) = Returns (Some ErrInvalidFruits)
   \<and> ValidateBody sampleValidator (sampleBlock 6 55 [100, 101, 102]) = Returns (Some ErrInvalidFruits)"
proof -
  have ok: "ValidateBody sampleValidator (sampleBlock 6 55 [101, 102, 103]) = Returns None"
    by (simp add: stage_defs sample_defs)
  have a1: "anchorsAccepted sampleValidator (sampleBlock 6 55 [101, 103, 104])"
    by (simp add: anchorsAccepted_def check_defs sample_defs Uint64_def)
  have a2: "anchorsAccepted sampleValidator (sampleBlock 6 55 [100, 101, 102])"
    by (simp add: anchorsAccepted_def check_defs sample_defs Uint64_def)
  have v1: "ValidateFruit sampleValidator (sampleFruit 101) (Some (sampleBlock 6 55 [101, 103, 104])) False = Returns None"
    by (simp add: ValidateFruit_def sample_defs Uint64_def)
  show ?thesis
    using ok a1 a2 v1
      ValidateBody_contiguity [of sampleValidator "sampleBlock 6 55 [101, 102, 103]" "sampleBlock 5 44 [98, 99, 100]" 100]
      ValidateBody_contiguity [of sampleValidator "sampleBlock 6 55 [101, 103, 104]" "sampleBlock 5 44 [98, 99, 100]" 100,
        THEN conjunct2, rule_format, of "[sampleFruit 101]" "sampleFruit 103" "[sampleFruit 104]" 103]
      ValidateBody_contiguity [of sampleValidator "sampleBlock 6 55 [100, 101, 102]" "sampleBlock 5 44 [98, 99, 100]" 100,
        THEN conjunct2, rule_format, of "[]" "sampleFruit 100" "[sampleFruit 101, sampleFruit 102]" 100]
    by (simp add: sample_defs NumberU64_def Uint64_def parentTemp_def anchorOf_def)
qed

text \<open>
  Claim C1 as stated fails: a candidate past the ancestor and fruit-count tests whose
  two fruits both anchor fast block 101 (a repeat) does not return \<open>ErrInvalidFruits\<close>.
  Its anchored headers are 0 apart, and the time-gap test, which the source runs before
  the loop, returns \<open>ErrGapFruits\<close>.
\<close>

theorem ValidateBody_contiguity_counterexample:
  "ValidateBody sampleValidator (sampleBlock 6 55 [101, 101])
     = ValidateBody_anchors sampleValidator (sampleBlock 6 55 [101, 101]) 100
   \<and> \<not> contiguous 100 (Fruits (sampleBlock 6 55 [101, 101]))
   \<and> ValidateBody sampleValidator (sampleBlock 6 55 [101, 101]) = Returns (Some ErrGapFruits)
   \<and> ValidateBody sampleValidator (sampleBlock 6 55 [101, 101]) \<noteq> Returns (Some ErrInvalidFruits)"
  by (simp add: stage_defs sample_defs)

text \<open>
  Claim C5, as the code has it. \<open>ValidateBody\<close> runs its tests one after the other and
  stops at the first that fails, in this order: known block, ancestor, fruit count,
  parent lookup, anchored-range resolution, block time, time gap; then, fruit by fruit,
  the contiguity of that fruit with the running \<open>temp\<close> followed by the validation of
  that fruit; and last the fruits hash.
\<close>

theorem ValidateBody_check_order:
  "ValidateBody v block = firstFailure (checksInSourceOrder v block)"
  by (rule ValidateBody_checks)

text \<open>
  On the sample chain, for the anchors 101, 103, 201: fast block 201 is not in the fast
  chain, and the first failing check of the list is the anchored-range resolution.
\<close>

theorem ValidateBody_check_order_witness:
  "firstFailure (checksInSourceOrder sampleValidator (sampleBlock 6 55 [101, 103, 201])) = Returns (Some ErrFutureBlock)"
  using ValidateBody_check_order [of sampleValidator "sampleBlock 6 55 [101, 103, 201]"]
  by (simp add: stage_defs sample_defs)

text \<open>
  Claim C5 as stated fails. With the anchors 101, 103, 201 the source answers
  \<open>ErrFutureBlock\<close> for the missing fast block 201 although the sequence already breaks
  at 103: the anchored-range resolution runs before the contiguity test. With the
  anchors 150, 152, 153 on the parent ending at 149 the source answers with the
  engine's error for the fruit anchoring 150 although the sequence breaks at 152: the
  first fruit is validated before the contiguity of the second is tested. In the order
  the specification lists, both candidates would fail with \<open>ErrInvalidFruits\<close>.
\<close>

theorem ValidateBody_check_order_counterexample:
  "ValidateBody sampleValidator (sampleBlock 6 55 [101, 103, 201]) = Returns (Some ErrFutureBlock)
   \<and> ValidateBody_spec_order sampleValidator (sampleBlock 6 55 [101, 103, 201]) = Returns (Some ErrInvalidFruits)
   \<and> ValidateBody sampleValidator (sampleBlock 9 77 [150, 152, 153]) = Returns (Some (EngineError ''bad signs''))
   \<and> ValidateBody_spec_order sampleValidator (sampleBlock 9 77 [150, 152, 153]) = Returns (Some ErrInvalidFruits)"
  by (simp add: stage_defs sample_defs ValidateBody_spec_order_def check_defs)

section \<open>Properties of the genesis set-up\<close>

lemmas genesis_sample_defs = sampleEnv_def sampleMember_def sampleGenesis_def otherDb_def fastOnlyDb_def
  NewMemDatabase_def sampleKey_def sampleCommittedMember_def sampleFastBlock_def

lemma normalizeCommittee_members:
  "normalizeCommittee env ms = Returns ms' \<Longrightarrow>
    list_all (genesisMember env) ms' \<and> map Publickey ms' = map Publickey ms
    \<and> map CommitteeMember.Coinbase ms' = map CommitteeMember.Coinbase ms"
  by (induction ms arbitrary: ms') (auto simp: genesisMember_def split: option.splits outcome.splits)

lemma normalizeCommittee_panics:
  "member \<in> set ms \<Longrightarrow> UnmarshalPubkey env (Publickey member) = None \<Longrightarrow> normalizeCommittee env ms = Panics"
  by (induction ms) (auto split: option.splits outcome.splits)

lemma ToFastBlock_returns:
  "ToFastBlock env g dbo = Returns (block, g', db') \<Longrightarrow>
     normalizeCommittee env (Committee g) = Returns (SwitchInfos block) \<and> g' = g\<lparr>Committee := SwitchInfos block\<rparr>"
  by (auto simp: ToFastBlock_def Let_def split: outcome.splits)

lemma ToFastBlock_block_any_db:
  "ToFastBlock env g dbo = Returns (block, g', db') \<Longrightarrow> returned (ToFastBlock env g dbo2) = Some block"
  by (auto simp: ToFastBlock_def Let_def returned_def split: outcome.splits)

lemma ToFastBlock_difficulty:
  "returned (ToFastBlock env (g\<lparr>Genesis.Difficulty := d\<rparr>) dbo) = returned (ToFastBlock env g dbo2)"
  by (auto simp: ToFastBlock_def Let_def returned_def split: outcome.splits)

lemma ToFastBlock_panics:
  "member \<in> set (Committee g) \<Longrightarrow> UnmarshalPubkey env (Publickey member) = None \<Longrightarrow> ToFastBlock env g dbo = Panics"
  by (simp add: ToFastBlock_def Let_def normalizeCommittee_panics)

lemma sample_ToFastBlock:
  "ToFastBlock sampleEnv (sampleGenesis [sampleMember sampleKey]) None
     = Returns (sampleFastBlock, sampleGenesis [sampleCommittedMember],
                NewMemDatabase\<lparr>stateStore := {7000}\<rparr>)"
  by (simp add: ToFastBlock_def genesis_sample_defs)

lemma sample_HashBlock: "HashBlock sampleEnv sampleFastBlock = 7001"
  by (simp add: genesis_sample_defs)

lemma sample_ToSnailBlock:
  "\<exists>snailBlock. ToSnailBlock sampleEnv (sampleGenesis [sampleMember sampleKey]) None
     = Returns (snailBlock, sampleGenesis [sampleCommittedMember],
                NewMemDatabase\<lparr>stateStore := {7000}\<rparr>)
     \<and> HashSnailBlock sampleEnv snailBlock = 7101"
  by (simp add: ToSnailBlock_def ToFastBlock_def NewSnailBlock_def bigDiv_def genesis_sample_defs)

lemma sample_otherDb: "ReadCanonicalHash otherDb 0 = 999 \<and> ReadSnailCanonicalHash otherDb 0 = 888"
  by (simp add: ReadCanonicalHash_def ReadSnailCanonicalHash_def otherDb_def NewMemDatabase_def)

text \<open>
  Claim C2, as the code has it. For a specification that carries a configuration, and
  for each ledger on its own: when the database holds a canonical hash at height zero,
  the genesis block derived from the specification (without a database) exists and its
  hash differs from the stored one, the ledger's set-up function returns the
  specification's configuration, the derived hash and \<open>GenesisMismatchError\<close> with the
  stored and the derived hash, and the database it leaves is the one it was given.
\<close>

theorem setup_genesis_mismatch:
  assumes "Config g = Some cfg"
  shows "(ReadCanonicalHash db 0 \<noteq> 0 \<and> ToFastBlock env g None = Returns (block, g1, d1)
          \<and> HashBlock env block \<noteq> ReadCanonicalHash db 0
          \<longrightarrow> setupFastGenesisBlock env db (Some g)
              = Returns ((Some cfg, HashBlock env block,
                          Some (GenesisMismatchError (ReadCanonicalHash db 0) (HashBlock env block))),
                         Some g1, db))
       \<and> (ReadSnailCanonicalHash db 0 \<noteq> 0 \<and> ToSnailBlock env g None = Returns (snailBlock, g2, d2)
          \<and> HashSnailBlock env snailBlock \<noteq> ReadSnailCanonicalHash db 0
          \<longrightarrow> setupSnailGenesisBlock env db (Some g)
              = Returns ((Some cfg, HashSnailBlock env snailBlock,
                          Some (GenesisMismatchError (ReadSnailCanonicalHash db 0)
                                 (HashSnailBlock env snailBlock))),
                         Some g2, db))"
proof (intro conjI impI)
  assume h: "ReadCanonicalHash db 0 \<noteq> 0 \<and> ToFastBlock env g None = Returns (block, g1, d1)
          \<and> HashBlock env block \<noteq> ReadCanonicalHash db 0"
  then have "Config g1 = Some cfg"
    using assms by (auto dest: ToFastBlock_returns)
  with h assms show "setupFastGenesisBlock env db (Some g)
              = Returns ((Some cfg, HashBlock env block,
                          Some (GenesisMismatchError (ReadCanonicalHash db 0) (HashBlock env block))),
                         Some g1, db)"
    by (simp add: setupFastGenesisBlock_def Let_def)
next
  assume h: "ReadSnailCanonicalHash db 0 \<noteq> 0 \<and> ToSnailBlock env g None = Returns (snailBlock, g2, d2)
          \<and> HashSnailBlock env snailBlock \<noteq> ReadSnailCanonicalHash db 0"
  then have "Config g2 = Some cfg"
    using assms by (auto simp: ToSnailBlock_def Let_def split: outcome.splits dest!: ToFastBlock_returns)
  with h assms show "setupSnailGenesisBlock env db (Some g)
              = Returns ((Some cfg, HashSnailBlock env snailBlock,
                          Some (GenesisMismatchError (ReadSnailCanonicalHash db 0)
                                 (HashSnailBlock env snailBlock))),
                         Some g2, db)"
    by (simp add: setupSnailGenesisBlock_def Let_def)
qed

text \<open>
  On the sample network the database holds the hashes 999 and 888; the sample
  specification derives the hashes 7001 and 7101.
\<close>

theorem setup_genesis_mismatch_witness:
  "setupFastGenesisBlock sampleEnv otherDb (Some (sampleGenesis [sampleMember sampleKey]))
     = Returns ((Some (ChainConfig 100), 7001, Some (GenesisMismatchError 999 7001)),
                Some (sampleGenesis [sampleCommittedMember]), otherDb)
   \<and> returned (setupSnailGenesisBlock sampleEnv otherDb (Some (sampleGenesis [sampleMember sampleKey])))
     = Some (Some (ChainConfig 100), 7101, Some (GenesisMismatchError 888 7101))
   \<and> databaseAfter (setupSnailGenesisBlock sampleEnv otherDb (Some (sampleGenesis [sampleMember sampleKey])))
     = Some otherDb"
proof -
  obtain snailBlock where
    sb: "ToSnailBlock sampleEnv (sampleGenesis [sampleMember sampleKey]) None
          = Returns (snailBlock, sampleGenesis [sampleCommittedMember], NewMemDatabase\<lparr>stateStore := {7000}\<rparr>)"
    and sh: "HashSnailBlock sampleEnv snailBlock = 7101"
    using sample_ToSnailBlock by blast
  have cfg: "Config (sampleGenesis [sampleMember sampleKey]) = Some (ChainConfig 100)"
    by (simp add: sampleGenesis_def)
  show ?thesis
    using setup_genesis_mismatch [OF cfg, of otherDb sampleEnv sampleFastBlock
        "sampleGenesis [sampleCommittedMember]" "NewMemDatabase\<lparr>stateStore := {7000}\<rparr>"
        snailBlock "sampleGenesis [sampleCommittedMember]" "NewMemDatabase\<lparr>stateStore := {7000}\<rparr>"]
      sample_ToFastBlock sample_HashBlock sb sh sample_otherDb
    by (simp add: returned_def databaseAfter_def)
qed

text \<open>
  Claim C2 as stated fails for a specification without configuration: the stored hashes
  999 and 888 differ from the derived hashes 7001 and 7101, yet both set-up functions
  return \<open>errGenesisNoConfig\<close> with the zero hash, not a mismatch error.
\<close>

theorem setup_genesis_mismatch_counterexample:
  "ReadCanonicalHash otherDb 0 = 999
   \<and> map_option (HashBlock sampleEnv)
        (returned (ToFastBlock sampleEnv ((sampleGenesis [sampleMember sampleKey])\<lparr>Config := None\<rparr>) None))
      = Some 7001
   \<and> returned (setupFastGenesisBlock sampleEnv otherDb
        (Some ((sampleGenesis [sampleMember sampleKey])\<lparr>Config := None\<rparr>)))
      = Some (Some (ChainConfig 1337), 0, Some errGenesisNoConfig)
   \<and> ReadSnailCanonicalHash otherDb 0 = 888
   \<and> map_option (HashSnailBlock sampleEnv)
        (returned (ToSnailBlock sampleEnv ((sampleGenesis [sampleMember sampleKey])\<lparr>Config := None\<rparr>) None))
      = Some 7101
   \<and> returned (setupSnailGenesisBlock sampleEnv otherDb
        (Some ((sampleGenesis [sampleMember sampleKey])\<lparr>Config := None\<rparr>)))
      = Some (Some (ChainConfig 1337), 0, Some errGenesisNoConfig)"
  by (simp add: returned_def setupFastGenesisBlock_def setupSnailGenesisBlock_def
      ToSnailBlock_def ToFastBlock_def NewSnailBlock_def bigDiv_def
      ReadCanonicalHash_def ReadSnailCanonicalHash_def genesis_sample_defs)

text \<open>
  Claim C3. Called with a specification whose configuration is nil,
  \<open>SetupGenesisBlock\<close> returns \<open>errGenesisNoConfig\<close> (with the default configuration and
  two zero hashes) and leaves the database as it was, whatever the database holds.
\<close>

theorem SetupGenesisBlock_no_config:
  assumes "Config g = None"
  shows "SetupGenesisBlock env db (Some g)
         = Returns ((Some (AllMinervaProtocolChanges env), 0, 0, Some errGenesisNoConfig), Some g, db)"
  using assms by (simp add: SetupGenesisBlock_def)

text \<open>
  On the sample network, with a database holding other genesis blocks and with an
  empty one.
\<close>

theorem SetupGenesisBlock_no_config_witness:
  "SetupGenesisBlock sampleEnv otherDb (Some ((sampleGenesis [sampleMember sampleKey])\<lparr>Config := None\<rparr>))
     = Returns ((Some (ChainConfig 1337), 0, 0, Some errGenesisNoConfig),
                Some ((sampleGenesis [sampleMember sampleKey])\<lparr>Config := None\<rparr>), otherDb)
   \<and> SetupGenesisBlock sampleEnv NewMemDatabase (Some ((sampleGenesis [])\<lparr>Config := None\<rparr>))
     = Returns ((Some (ChainConfig 1337), 0, 0, Some errGenesisNoConfig),
                Some ((sampleGenesis [])\<lparr>Config := None\<rparr>), NewMemDatabase)"
  using SetupGenesisBlock_no_config [of "(sampleGenesis [sampleMember sampleKey])\<lparr>Config := None\<rparr>" sampleEnv otherDb]
    SetupGenesisBlock_no_config [of "(sampleGenesis [])\<lparr>Config := None\<rparr>" sampleEnv NewMemDatabase]
  by (simp add: sampleEnv_def)

text \<open>
  Claim C4. The claim asks that a failure of the snail-ledger sub-protocol reaches the
  caller of \<open>SetupGenesisBlock\<close>. The code does not do so: line 146 assigns the error
  that \<open>setupSnailGenesisBlock\<close> returns to the blank identifier, while line 148 returns
  the error of the fast-ledger sub-protocol. Evaluated on the sample network, with a
  database that holds the committed fast genesis of the sample specification and another
  snail genesis (hash 888): the fast sub-protocol succeeds, the snail sub-protocol
  returns \<open>GenesisMismatchError\<close> (888 against 7101), and \<open>SetupGenesisBlock\<close> returns
  no error.
\<close>

theorem SetupGenesisBlock_drops_snail_error:
  "returned (runSubProtocols sampleEnv fastOnlyDb (Some (sampleGenesis [sampleMember sampleKey])))
     = Some ((Some (ChainConfig 100), 7001, None),
             (Some (ChainConfig 100), 7101, Some (GenesisMismatchError 888 7101)))
   \<and> returned (SetupGenesisBlock sampleEnv fastOnlyDb (Some (sampleGenesis [sampleMember sampleKey])))
     = Some (Some (ChainConfig 100), 7001, 7101, None)"
  by (simp add: returned_def SetupGenesisBlock_def runSubProtocols_def setupFastGenesisBlock_def
      setupSnailGenesisBlock_def setupFastConfig_def configOrDefault_def CommitFast_def
      ToSnailBlock_def ToFastBlock_def NewSnailBlock_def bigDiv_def Uint64_def
      ReadCanonicalHash_def ReadSnailCanonicalHash_def ReadChainConfig_def ReadHeaderNumber_def
      ReadHeadHeaderHash_def WriteChainConfig_def Let_def genesis_sample_defs)

text \<open>
  Claim C8. In a genesis block that \<open>ToFastBlock\<close> returns, and in one that
  \<open>CommitFast\<close> has committed, every committee member has as committee-base address the
  address of the key decoded from its public key bytes, the flag \<open>StateUsedFlag\<close> and the
  type \<open>TypeFixed\<close>; the members are those of the specification, in order, with their
  public keys and beneficiary addresses unchanged.
\<close>

theorem ToFastBlock_committee:
  "(ToFastBlock env g dbo = Returns (block, g', db')
      \<longrightarrow> list_all (genesisMember env) (SwitchInfos block)
          \<and> map Publickey (SwitchInfos block) = map Publickey (Committee g)
          \<and> map CommitteeMember.Coinbase (SwitchInfos block) = map CommitteeMember.Coinbase (Committee g))
   \<and> (CommitFast env g db = Returns ((Some block, err), g', db')
      \<longrightarrow> list_all (genesisMember env) (SwitchInfos block)
          \<and> map Publickey (SwitchInfos block) = map Publickey (Committee g)
          \<and> map CommitteeMember.Coinbase (SwitchInfos block) = map CommitteeMember.Coinbase (Committee g))"
proof -
  have fast: "list_all (genesisMember env) (SwitchInfos b)
          \<and> map Publickey (SwitchInfos b) = map Publickey (Committee g)
          \<and> map CommitteeMember.Coinbase (SwitchInfos b) = map CommitteeMember.Coinbase (Committee g)"
    if "ToFastBlock env g d = Returns (b, g1, d1)" for b g1 d d1
    using ToFastBlock_returns [OF that] normalizeCommittee_members by blast
  have "\<exists>d1. ToFastBlock env g (Some db) = Returns (block, g', d1)"
    if "CommitFast env g db = Returns ((Some block, err), g', db')"
    using that by (auto simp: CommitFast_def Let_def split: outcome.splits if_splits)
  with fast show ?thesis by blast
qed

text \<open>
  On the sample network: the member with the sample key gets the address 9065.
\<close>

theorem ToFastBlock_committee_witness:
  "ToFastBlock sampleEnv (sampleGenesis [sampleMember sampleKey]) None
     = Returns (sampleFastBlock, sampleGenesis [sampleCommittedMember], NewMemDatabase\<lparr>stateStore := {7000}\<rparr>)
   \<and> list_all (genesisMember sampleEnv) (SwitchInfos sampleFastBlock)
   \<and> map Publickey (SwitchInfos sampleFastBlock) = [sampleKey]
   \<and> map CommitteeBase (SwitchInfos sampleFastBlock) = [9065]"
  using ToFastBlock_committee [of sampleEnv "sampleGenesis [sampleMember sampleKey]" None sampleFastBlock
      "sampleGenesis [sampleCommittedMember]" "NewMemDatabase\<lparr>stateStore := {7000}\<rparr>"]
    sample_ToFastBlock
  by (simp add: sampleGenesis_def sampleMember_def sampleFastBlock_def sampleCommittedMember_def)

text \<open>
  Claim C9. A snail genesis block that \<open>ToSnailBlock\<close> returns has exactly one fruit.
  The fruit has no signatures and no fruits of its own, and it anchors the fast genesis
  block that \<open>ToFastBlock\<close> derives from the same specification (with or without a
  database): its fast number and fast hash are that block's number and hash.
\<close>

theorem ToSnailBlock_single_fruit:
  assumes "ToSnailBlock env g dbo = Returns (block, g', db')"
  shows "\<exists>fruit fastBlock.
           Fruits block = [fruit] \<and> Signs fruit = [] \<and> Fruits fruit = []
           \<and> (\<forall>dbo2. returned (ToFastBlock env g dbo2) = Some fastBlock)
           \<and> FastNumber (header fruit) = Some (Header.Number (fastHeader fastBlock))
           \<and> FastHash (header fruit) = HashBlock env fastBlock"
proof -
  let ?g = "g\<lparr>Genesis.Difficulty := Some (case Genesis.Difficulty g of None \<Rightarrow> GenesisDifficulty env | Some d \<Rightarrow> d)\<rparr>"
  let ?db = "case dbo of None \<Rightarrow> NewMemDatabase | Some d \<Rightarrow> d"
  from assms obtain fastBlock g1 d1 where
    fb: "ToFastBlock env ?g (Some ?db) = Returns (fastBlock, g1, d1)"
    by (auto simp: ToSnailBlock_def Let_def split: outcome.splits)
  have any: "returned (ToFastBlock env g dbo2) = Some fastBlock" for dbo2
    using ToFastBlock_block_any_db [OF fb] ToFastBlock_difficulty by metis
  from assms fb obtain fruit where
    "Fruits block = [fruit]" "Signs fruit = []" "Fruits fruit = []"
    "FastNumber (header fruit) = Some (Header.Number (fastHeader fastBlock))"
    "FastHash (header fruit) = HashBlock env fastBlock"
    by (auto simp: ToSnailBlock_def NewSnailBlock_def Let_def split: outcome.splits)
  with any show ?thesis by blast
qed

text \<open>
  On the sample network the fruit anchors fast block 0 with hash 7001.
\<close>

theorem ToSnailBlock_single_fruit_witness:
  "\<exists>block fruit.
     returned (ToSnailBlock sampleEnv (sampleGenesis [sampleMember sampleKey]) None) = Some block
     \<and> Fruits block = [fruit] \<and> Signs fruit = []
     \<and> returned (ToFastBlock sampleEnv (sampleGenesis [sampleMember sampleKey]) None) = Some sampleFastBlock
     \<and> FastNumber (header fruit) = Some 0 \<and> FastHash (header fruit) = 7001"
proof -
  obtain snailBlock where
    sb: "ToSnailBlock sampleEnv (sampleGenesis [sampleMember sampleKey]) None
          = Returns (snailBlock, sampleGenesis [sampleCommittedMember], NewMemDatabase\<lparr>stateStore := {7000}\<rparr>)"
    using sample_ToSnailBlock by blast
  from ToSnailBlock_single_fruit [OF sb] obtain fruit fastBlock where
    f: "Fruits snailBlock = [fruit]" "Signs fruit = []"
      "\<forall>dbo2. returned (ToFastBlock sampleEnv (sampleGenesis [sampleMember sampleKey]) dbo2) = Some fastBlock"
      "FastNumber (header fruit) = Some (Header.Number (fastHeader fastBlock))"
      "FastHash (header fruit) = HashBlock sampleEnv fastBlock"
    by blast
  from f(3) [rule_format, of None] sample_ToFastBlock have "fastBlock = sampleFastBlock"
    by (simp add: returned_def)
  with f sb sample_HashBlock show ?thesis
    by (simp add: returned_def sampleFastBlock_def)
qed

text \<open>
  Claim C10. When the committee of a specification has a member whose public key bytes
  do not decode, \<open>ToFastBlock\<close> panics instead of returning an error, and so do
  \<open>CommitFast\<close> and, for a specification with a configuration on a database without a
  fast genesis, \<open>SetupGenesisBlock\<close>.
\<close>

theorem ToFastBlock_invalid_key:
  assumes "member \<in> set (Committee g)" and "UnmarshalPubkey env (Publickey member) = None"
  shows "ToFastBlock env g dbo = Panics \<and> CommitFast env g db = Panics
       \<and> (Config g \<noteq> None \<and> ReadCanonicalHash db 0 = 0 \<longrightarrow> SetupGenesisBlock env db (Some g) = Panics)"
  using ToFastBlock_panics [OF assms]
  by (auto simp: CommitFast_def SetupGenesisBlock_def runSubProtocols_def setupFastGenesisBlock_def Let_def)

text \<open>
  On the sample network, a committee whose second member has the three-byte key 1, 2, 3.
\<close>

theorem ToFastBlock_invalid_key_witness:
  "ToFastBlock sampleEnv (sampleGenesis [sampleMember sampleKey, sampleMember [1, 2, 3]]) None = Panics
   \<and> CommitFast sampleEnv (sampleGenesis [sampleMember sampleKey, sampleMember [1, 2, 3]]) NewMemDatabase = Panics
   \<and> SetupGenesisBlock sampleEnv NewMemDatabase
        (Some (sampleGenesis [sampleMember sampleKey, sampleMember [1, 2, 3]])) = Panics"
  using ToFastBlock_invalid_key [of "sampleMember [1, 2, 3]"
      "sampleGenesis [sampleMember sampleKey, sampleMember [1, 2, 3]]" sampleEnv None NewMemDatabase]
  by (simp add: sampleGenesis_def sampleMember_def sampleEnv_def ReadCanonicalHash_def NewMemDatabase_def)

end
